theory Spec2Isabelle
  imports Main
begin

section \<open>The Elasticsearch controller of pkg/controllers/elasticsearch\<close>

text \<open>
  A shallow embedding of \<^verbatim>\<open>elasticsearch.go\<close>: the spec validator
  (\<^verbatim>\<open>verifyElasticsearchCluster\<close>, \<^verbatim>\<open>verifyNodePool\<close>), the sync dispatcher
  (\<^verbatim>\<open>processNextWorkItem\<close>, \<^verbatim>\<open>sync\<close>), the event handlers registered by
  \<^verbatim>\<open>NewElasticsearch\<close> and the start-up sequence \<^verbatim>\<open>Run\<close>.

  The work queue, the listers, the logger and the convergence strategy are collaborators
  of the controller that live outside this file. Every method of the controller is
  modelled as a function that returns, next to its Go result, the list of calls it makes
  on those collaborators, in program order. What the collaborators answer (a cache
  lookup, the strategy's error, the clock) is read from an environment record.
\<close>

subsection \<open>API objects\<close>

text \<open>
  Modelled from the spec: the type declarations of package \<^verbatim>\<open>pkg/api/v1\<close>
  (\<^verbatim>\<open>ElasticsearchCluster\<close>, its spec, \<^verbatim>\<open>ElasticsearchClusterNodePool\<close> and the
  stateful and persistence configuration) are not among the sources. The spec gives a
  cluster resource a name and namespace, a version string, an ordered collection of node
  pools and a deletion marker that is nil until deletion is requested; a node pool has
  roles, a stateful flag and a persistence flag. The records below hold these fields
  under the names \<^verbatim>\<open>elasticsearch.go\<close> uses, with the shape its accesses give them:
  \<^verbatim>\<open>np.State\<close> is compared with \<^verbatim>\<open>nil\<close>, so it is optional;
  \<^verbatim>\<open>np.State.Stateful\<close> and \<^verbatim>\<open>np.State.Persistence.Enabled\<close> are used as booleans;
  \<^verbatim>\<open>es.DeletionTimestamp\<close> is assigned the address of a time, so it is optional.
  A pointer that the code dereferences without a test (\<^verbatim>\<open>c\<close>, \<^verbatim>\<open>np\<close>, the
  objects delivered by an informer) is modelled by the object it points to.
\<close>

type_synonym Time = nat

record OwnerReference =
  OwnerKind :: string
  OwnerName :: string

record ObjectMeta =
  Name :: string
  Namespace :: string
  DeletionTimestamp :: "Time option"
  OwnerReferences :: "OwnerReference list"

record ElasticsearchClusterPersistenceConfig =
  Enabled :: bool

record ElasticsearchClusterStatefulConfig =
  Stateful :: bool
  Persistence :: ElasticsearchClusterPersistenceConfig

record ElasticsearchClusterNodePool =
  Roles :: "string list"
  State :: "ElasticsearchClusterStatefulConfig option"

record ElasticsearchClusterSpec =
  Version :: string
  NodePools :: "ElasticsearchClusterNodePool list"

record ElasticsearchCluster =
  Meta :: ObjectMeta
  Spec :: ElasticsearchClusterSpec

subsection \<open>Errors\<close>

text \<open>
  A Go \<^verbatim>\<open>error\<close> is either built by \<^verbatim>\<open>fmt.Errorf\<close> or is an API status error
  with a reason; \<^verbatim>\<open>errors.IsNotFound\<close> tests the reason. \<open>Errorf msg\<close> holds the
  rendered message of a format whose verbs are \<^verbatim>\<open>%s\<close> (the argument is spliced in as
  it is). \<open>ErrorfQ format arg\<close> is \<^verbatim>\<open>fmt.Errorf(format, arg)\<close> for a format with one
  \<^verbatim>\<open>%q\<close> verb: the format and the argument are kept, Go's quoting of the argument is
  not rendered. A nil error is \<open>None\<close>.
\<close>

datatype StatusReason = StatusReasonNotFound | StatusReasonOther string

datatype error = Errorf string | ErrorfQ string string | StatusError StatusReason

fun IsNotFound :: "error \<Rightarrow> bool" where
  "IsNotFound (StatusError StatusReasonNotFound) = True"
| "IsNotFound _ = False"

subsection \<open>The spec validator\<close>

text \<open>The loop over \<^verbatim>\<open>np.Roles\<close> with its \<^verbatim>\<open>switch\<close>.\<close>

fun verifyRoles :: "string list \<Rightarrow> error option" where
  "verifyRoles [] = None"
| "verifyRoles (role # roles) =
     (if role = ''data'' \<or> role = ''client'' \<or> role = ''master''
      then verifyRoles roles
      else Some (Errorf (''invalid role '' @ [CHR 0x27] @ role @ [CHR 0x27] @
          '' specified. must be one of 'data', 'client' or 'master'' @ [CHR 0x27])))"

definition verifyNodePool :: "ElasticsearchClusterNodePool \<Rightarrow> error option" where
  "verifyNodePool np =
     (case verifyRoles (Roles np) of
        Some err \<Rightarrow> Some err
      | None \<Rightarrow>
         (case State np of
            Some st \<Rightarrow>
              if \<not> Stateful st \<and> Enabled (Persistence st)
              then Some (Errorf ''a non-stateful node pool cannot have persistence enabled'')
              else None
          | None \<Rightarrow> None))"

text \<open>The loop over \<^verbatim>\<open>c.Spec.NodePools\<close>.\<close>

fun verifyNodePools :: "ElasticsearchClusterNodePool list \<Rightarrow> error option" where
  "verifyNodePools [] = None"
| "verifyNodePools (np # nps) =
     (case verifyNodePool np of
        Some err \<Rightarrow> Some err
      | None \<Rightarrow> verifyNodePools nps)"

definition verifyElasticsearchCluster :: "ElasticsearchCluster \<Rightarrow> error option" where
  "verifyElasticsearchCluster c =
     (if Version (Spec c) = ''''
      then Some (Errorf ''cluster version number must be specified'')
      else verifyNodePools (NodePools (Spec c)))"

text \<open>
  The check order of the validator, written out as the list of everything it could
  object to: the version, then each node pool in list order, and inside a pool every
  role outside the three known ones before the stateful/persistence combination. This
  list is not computed by the code; it is the yardstick for "the first violation".
\<close>

definition role_violations :: "string list \<Rightarrow> error list" where
  "role_violations roles =
     map (\<lambda>role. Errorf (''invalid role '' @ [CHR 0x27] @ role @ [CHR 0x27] @
          '' specified. must be one of 'data', 'client' or 'master'' @ [CHR 0x27]))
       (filter (\<lambda>role. role \<notin> {''data'', ''client'', ''master''}) roles)"

definition pool_violations :: "ElasticsearchClusterNodePool \<Rightarrow> error list" where
  "pool_violations np =
     role_violations (Roles np) @
     (case State np of
        Some st \<Rightarrow>
          if \<not> Stateful st \<and> Enabled (Persistence st)
          then [Errorf ''a non-stateful node pool cannot have persistence enabled'']
          else []
      | None \<Rightarrow> [])"

definition violations_in_check_order :: "ElasticsearchCluster \<Rightarrow> error list" where
  "violations_in_check_order c =
     (if Version (Spec c) = '''' then [Errorf ''cluster version number must be specified'']
      else []) @
     concat (map pool_violations (NodePools (Spec c)))"

subsection \<open>The validator on a store of pointers\<close>

text \<open>
  In Go the validator receives a pointer \<^verbatim>\<open>c\<close>; \<^verbatim>\<open>c.Spec.NodePools\<close> is a slice of
  pointers to node pools and \<^verbatim>\<open>np.State\<close> a pointer to the stateful configuration.
  Here the three kinds of object live in a store, at addresses, and a pointer is an
  address or nil (\<open>None\<close>). The functions below are the validator once more, statement
  by statement, on such a store: each takes the store and returns the store it leaves
  behind, next to what the Go function returns. Dereferencing nil panics; an address
  without an object does not occur in Go and is treated the same way.
\<close>

type_synonym addr = nat

record NodePoolCell =
  PoolRoles :: "string list"
  PoolState :: "addr option"

record ClusterCell =
  ClusterMeta :: ObjectMeta
  ClusterVersion :: string
  ClusterNodePools :: "addr option list"

record store =
  clusters :: "addr \<rightharpoonup> ClusterCell"
  nodePools :: "addr \<rightharpoonup> NodePoolCell"
  stateConfigs :: "addr \<rightharpoonup> ElasticsearchClusterStatefulConfig"

datatype 'a outcome = Returned 'a | NilPointerPanic

definition deref :: "(addr \<rightharpoonup> 'a) \<Rightarrow> addr option \<Rightarrow> 'a option" where
  "deref cells p = (case p of None \<Rightarrow> None | Some a \<Rightarrow> cells a)"

definition verifyNodePool_ptr :: "store \<Rightarrow> addr option \<Rightarrow> error option outcome \<times> store" where
  "verifyNodePool_ptr h np =
     (case deref (nodePools h) np of
        None \<Rightarrow> (NilPointerPanic, h)
      | Some cell \<Rightarrow>
         (case verifyRoles (PoolRoles cell) of
            Some err \<Rightarrow> (Returned (Some err), h)
          | None \<Rightarrow>
             (case PoolState cell of
                None \<Rightarrow> (Returned None, h)
              | Some a \<Rightarrow>
                 (case stateConfigs h a of
                    None \<Rightarrow> (NilPointerPanic, h)
                  | Some st \<Rightarrow>
                     if \<not> Stateful st \<and> Enabled (Persistence st)
                     then (Returned
                             (Some (Errorf
                                ''a non-stateful node pool cannot have persistence enabled'')),
                           h)
                     else (Returned None, h)))))"

fun verifyNodePools_ptr ::
  "store \<Rightarrow> addr option list \<Rightarrow> error option outcome \<times> store" where
  "verifyNodePools_ptr h [] = (Returned None, h)"
| "verifyNodePools_ptr h (np # nps) =
     (case verifyNodePool_ptr h np of
        (Returned None, h') \<Rightarrow> verifyNodePools_ptr h' nps
      | (stopped, h') \<Rightarrow> (stopped, h'))"

definition verifyElasticsearchCluster_ptr ::
  "store \<Rightarrow> addr option \<Rightarrow> error option outcome \<times> store" where
  "verifyElasticsearchCluster_ptr h c =
     (case deref (clusters h) c of
        None \<Rightarrow> (NilPointerPanic, h)
      | Some cell \<Rightarrow>
         if ClusterVersion cell = ''''
         then (Returned (Some (Errorf ''cluster version number must be specified'')), h)
         else verifyNodePools_ptr h (ClusterNodePools cell))"

text \<open>The cluster resource a pointer stands for in a store: the object with everything
  it points to, when no pointer on the way is nil.\<close>

definition load_pool :: "store \<Rightarrow> addr option \<Rightarrow> ElasticsearchClusterNodePool option" where
  "load_pool h np =
     (case deref (nodePools h) np of
        None \<Rightarrow> None
      | Some cell \<Rightarrow>
         (case PoolState cell of
            None \<Rightarrow> Some \<lparr>Roles = PoolRoles cell, State = None\<rparr>
          | Some a \<Rightarrow>
             (case stateConfigs h a of
                None \<Rightarrow> None
              | Some st \<Rightarrow> Some \<lparr>Roles = PoolRoles cell, State = Some st\<rparr>)))"

fun load_pools :: "store \<Rightarrow> addr option list \<Rightarrow> ElasticsearchClusterNodePool list option" where
  "load_pools h [] = Some []"
| "load_pools h (np # nps) =
     (case load_pool h np of
        None \<Rightarrow> None
      | Some pool \<Rightarrow>
         (case load_pools h nps of
            None \<Rightarrow> None
          | Some pools \<Rightarrow> Some (pool # pools)))"

definition load_cluster :: "store \<Rightarrow> addr option \<Rightarrow> ElasticsearchCluster option" where
  "load_cluster h c =
     (case deref (clusters h) c of
        None \<Rightarrow> None
      | Some cell \<Rightarrow>
         (case load_pools h (ClusterNodePools cell) of
            None \<Rightarrow> None
          | Some pools \<Rightarrow>
             Some \<lparr>Meta = ClusterMeta cell,
                   Spec = \<lparr>Version = ClusterVersion cell, NodePools = pools\<rparr>\<rparr>))"

subsection \<open>Interface values, collaborators and their calls\<close>

text \<open>
  The Kubernetes types \<^verbatim>\<open>extensions.Deployment\<close>, \<^verbatim>\<open>apps.StatefulSet\<close>,
  \<^verbatim>\<open>apiv1.ServiceAccount\<close> and \<^verbatim>\<open>apiv1.Service\<close> belong to client-go. The handlers
  read only their \<^verbatim>\<open>ObjectMeta\<close>; the rest of each object is kept as an uninterpreted
  body, so that two objects with the same metadata can still differ.
\<close>

record Subordinate =
  SubMeta :: ObjectMeta
  Body :: string

text \<open>
  An \<^verbatim>\<open>interface{}\<close> value is a dynamic type with a value. The constructors are the
  dynamic types that reach the controller: a string key, a pointer to each watched
  kind, and the informer's \<^verbatim>\<open>cache.DeletedFinalStateUnknown\<close> tombstone (a key and
  the last known object), which stands for every other dynamic type.
\<close>

datatype object =
    StringObj string
  | ClusterObj ElasticsearchCluster
  | DeploymentObj Subordinate
  | StatefulSetObj Subordinate
  | ServiceAccountObj Subordinate
  | ServiceObj Subordinate
  | TombstoneObj string object

datatype informer =
    ESInformer | DeployInformer | StatefulSetInformer | ServiceAccountInformer | ServiceInformer

text \<open>
  The calls a method makes on its collaborators. A log call is identified by its format
  string; the formatted arguments are not rendered. A key handed to the queue is the
  interface value as it was dequeued (for a pointer key: the pointer, named by the object
  it pointed to at that moment).
\<close>

datatype call =
    QueueAdd object
  | QueueAddRateLimited object
  | QueueForget object
  | QueueDone object
  | QueueShutDown
  | StrategySync ElasticsearchCluster
  | LogInfof string
  | LogDebugf string
  | LogErrorf string
  | HandleError string
  | CallWaitForCacheSync "informer list"
  | GoWaitUntilWorker
  | ReceiveStop

text \<open>
  The environment: what the collaborators answer.
  \<^item> \<open>esLister e namespace name\<close> is \<^verbatim>\<open>e.esLister.ElasticsearchClusters(namespace).Get(name)\<close>;
  \<^item> \<open>SyncElasticsearchCluster e es\<close> is the error returned by the convergence strategy;
  \<^item> \<open>KeyFunc\<close> is \<^verbatim>\<open>controllers.KeyFunc\<close> and \<open>managedOwnerRef\<close> the helper of the
    same name; both are declared outside this file and are taken as they come;
  \<^item> \<open>DeepEqual e old cur\<close> is \<^verbatim>\<open>reflect.DeepEqual(old, cur)\<close>, taken as it comes: the
    objects of the model keep only the fields the controller reads, and Go tells a nil
    slice from an empty one, so the comparison is not a function of the model's values;
  \<^item> \<open>Now\<close> is the reading of \<^verbatim>\<open>time.Now()\<close>;
  \<^item> \<open>HasSynced e i\<close> tells whether informer \<open>i\<close> reports synced before the stop
    channel closes.
\<close>

record env =
  esLister :: "string \<Rightarrow> string \<Rightarrow> error + ElasticsearchCluster"
  SyncElasticsearchCluster :: "ElasticsearchCluster \<Rightarrow> error option"
  KeyFunc :: "object \<Rightarrow> error + string"
  managedOwnerRef :: "ObjectMeta \<Rightarrow> OwnerReference option"
  DeepEqual :: "object \<Rightarrow> object \<Rightarrow> bool"
  Now :: Time
  HasSynced :: "informer \<Rightarrow> bool"

subsection \<open>client-go helpers\<close>

text \<open>\<^verbatim>\<open>strings.Split(key, "/")\<close>: the pieces between the separators, one piece for a
  string without separator (the empty string included).\<close>

fun split_on :: "char \<Rightarrow> string \<Rightarrow> string list" where
  "split_on sep [] = [[]]"
| "split_on sep (x # xs) =
     (if x = sep then [] # split_on sep xs
      else (case split_on sep xs of
              p # ps \<Rightarrow> (x # p) # ps
            | [] \<Rightarrow> [[x]]))"

text \<open>\<^verbatim>\<open>cache.SplitMetaNamespaceKey\<close>: one part is a name without namespace, two parts
  are namespace and name, anything else is an error.\<close>

definition SplitMetaNamespaceKey :: "string \<Rightarrow> error + (string \<times> string)" where
  "SplitMetaNamespaceKey key =
     (case split_on CHR ''/'' key of
        [name] \<Rightarrow> Inr ('''', name)
      | [namespace, name] \<Rightarrow> Inr (namespace, name)
      | _ \<Rightarrow> Inl (ErrorfQ ''unexpected key format: %q'' key))"

text \<open>\<^verbatim>\<open>cache.WaitForCacheSync(stopCh, fs...)\<close>: true when every given
  \<^verbatim>\<open>InformerSynced\<close> has returned true, false when the stop channel closed first.
  An \<^verbatim>\<open>InformerSynced\<close> value is named by the informer whose \<^verbatim>\<open>HasSynced\<close> it is.\<close>

definition WaitForCacheSync :: "env \<Rightarrow> informer list \<Rightarrow> bool" where
  "WaitForCacheSync e cacheSyncs = list_all (HasSynced e) cacheSyncs"

subsection \<open>The sync dispatcher\<close>

text \<open>\<^verbatim>\<open>sync\<close>: the returned error and the calls made. The deferred log line comes
  last on every path.\<close>

definition sync :: "env \<Rightarrow> string \<Rightarrow> error option \<times> call list" where
  "sync e key =
     (case SplitMetaNamespaceKey key of
        Inl err \<Rightarrow> (Some err, [LogInfof ''Finished syncing elasticsearchcluster %q (%v)''])
      | Inr (namespace, name) \<Rightarrow>
         (case esLister e namespace name of
            Inl err \<Rightarrow>
              if IsNotFound err
              then (None,
                    [LogInfof ''ElasticsearchCluster has been deleted %v'',
                     LogInfof ''Finished syncing elasticsearchcluster %q (%v)''])
              else (Some err,
                    [HandleError ''unable to retrieve ElasticsearchCluster %v from store: %v'',
                     LogInfof ''Finished syncing elasticsearchcluster %q (%v)''])
          | Inr es \<Rightarrow>
              (SyncElasticsearchCluster e es,
               [StrategySync es,
                LogInfof ''Finished syncing elasticsearchcluster %q (%v)''])))"

text \<open>
  \<^verbatim>\<open>processNextWorkItem\<close>, given what \<^verbatim>\<open>e.queue.Get()\<close> returned. The result is the
  boolean of the Go function and the calls made; the deferred \<^verbatim>\<open>Done\<close> comes last.
  In the pointer branch the snapshot is written through the pointer before the strategy
  sees it: the strategy is called with the stamped object.
\<close>

definition processNextWorkItem :: "env \<Rightarrow> object \<times> bool \<Rightarrow> bool \<times> call list" where
  "processNextWorkItem e got =
     (case got of (key, quit) \<Rightarrow>
        if quit then (False, [])
        else
          (True,
           (case key of
              StringObj k \<Rightarrow>
                (case sync e k of
                   (Some err, calls) \<Rightarrow>
                     calls @
                     [LogInfof ''Error syncing ElasticsearchCluster %v, requeuing: %v'',
                      QueueAddRateLimited key]
                 | (None, calls) \<Rightarrow> calls @ [QueueForget key])
            | ClusterObj es \<Rightarrow>
                (let es' = es\<lparr>Meta := (Meta es)\<lparr>DeletionTimestamp := Some (Now e)\<rparr>\<rparr>
                 in StrategySync es' #
                    (case SyncElasticsearchCluster e es' of
                       Some err \<Rightarrow>
                         [LogInfof ''Error syncing ElasticsearchCluster %v, requeuing: %v'']
                     | None \<Rightarrow> []) @
                    [QueueForget key])
            | _ \<Rightarrow> []) @
           [QueueDone key]))"

subsection \<open>Enqueueing and the ownership router\<close>

definition enqueueElasticsearchCluster :: "env \<Rightarrow> object \<Rightarrow> call list" where
  "enqueueElasticsearchCluster e obj =
     (case KeyFunc e obj of
        Inl err \<Rightarrow> [LogInfof ''Cound't get key for object %+v: %v'']
      | Inr key \<Rightarrow> [QueueAdd (StringObj key)])"

definition enqueueElasticsearchClusterDelete :: "env \<Rightarrow> object \<Rightarrow> call list" where
  "enqueueElasticsearchClusterDelete e obj = [QueueAdd obj]"

definition handleDeploy :: "env \<Rightarrow> object \<Rightarrow> call list" where
  "handleDeploy e obj =
     (case obj of
        DeploymentObj deploy \<Rightarrow>
          (case managedOwnerRef e (SubMeta deploy) of
             Some ownerRef \<Rightarrow>
               LogDebugf (''getting elasticsearchcluster '%s/%s'' @ [CHR 0x27]) #
               (case esLister e (Namespace (SubMeta deploy)) (OwnerName ownerRef) of
                  Inl err \<Rightarrow>
                    [LogInfof (''ignoring orphaned deployment '%s' of elasticsearchcluster '%s''
                               @ [CHR 0x27])]
                | Inr cluster \<Rightarrow> enqueueElasticsearchCluster e (ClusterObj cluster))
           | None \<Rightarrow> [])
      | _ \<Rightarrow> [LogErrorf ''error decoding deployment, invalid type''])"

definition handleStatefulSet :: "env \<Rightarrow> object \<Rightarrow> call list" where
  "handleStatefulSet e obj =
     (case obj of
        StatefulSetObj ss \<Rightarrow>
          (case managedOwnerRef e (SubMeta ss) of
             Some ownerRef \<Rightarrow>
               (case esLister e (Namespace (SubMeta ss)) (OwnerName ownerRef) of
                  Inl err \<Rightarrow>
                    [LogInfof (''ignoring orphaned statefulset '%s' of elasticsearchcluster '%s''
                               @ [CHR 0x27])]
                | Inr cluster \<Rightarrow> enqueueElasticsearchCluster e (ClusterObj cluster))
           | None \<Rightarrow> [])
      | _ \<Rightarrow> [LogErrorf ''error decoding statefulset, invalid type''])"

definition handleServiceAccount :: "env \<Rightarrow> object \<Rightarrow> call list" where
  "handleServiceAccount e obj =
     (case obj of
        ServiceAccountObj ss \<Rightarrow>
          (case managedOwnerRef e (SubMeta ss) of
             Some ownerRef \<Rightarrow>
               (case esLister e (Namespace (SubMeta ss)) (OwnerName ownerRef) of
                  Inl err \<Rightarrow>
                    [LogInfof (''ignoring orphaned serviceaccount '%s' of elasticsearchcluster '%s''
                               @ [CHR 0x27])]
                | Inr cluster \<Rightarrow> enqueueElasticsearchCluster e (ClusterObj cluster))
           | None \<Rightarrow> [])
      | _ \<Rightarrow> [LogErrorf ''error decoding serviceaccount, invalid type''])"

definition handleService :: "env \<Rightarrow> object \<Rightarrow> call list" where
  "handleService e obj =
     (case obj of
        ServiceObj ss \<Rightarrow>
          (case managedOwnerRef e (SubMeta ss) of
             Some ownerRef \<Rightarrow>
               (case esLister e (Namespace (SubMeta ss)) (OwnerName ownerRef) of
                  Inl err \<Rightarrow>
                    [LogInfof (''ignoring orphaned service '%s' of elasticsearchcluster '%s''
                               @ [CHR 0x27])]
                | Inr cluster \<Rightarrow> enqueueElasticsearchCluster e (ClusterObj cluster))
           | None \<Rightarrow> [])
      | _ \<Rightarrow> [LogErrorf ''error decoding service, invalid type''])"

subsection \<open>Construction: the registered event handlers\<close>

text \<open>\<^verbatim>\<open>cache.ResourceEventHandlerFuncs\<close> with its three callbacks, and the event an
  informer delivers to it.\<close>

record ResourceEventHandlerFuncs =
  AddFunc :: "object \<Rightarrow> call list"
  UpdateFunc :: "object \<Rightarrow> object \<Rightarrow> call list"
  DeleteFunc :: "object \<Rightarrow> call list"



text \<open>The fields of the controller that \<^verbatim>\<open>NewElasticsearch\<close> fills with the
  \<^verbatim>\<open>HasSynced\<close> method of each informer.\<close>

record ElasticsearchController =
  esListerSynced :: informer
  deployListerSynced :: informer
  statefulSetListerSynced :: informer
  serviceAccountListerSynced :: informer
  serviceListerSynced :: informer

text \<open>
  \<^verbatim>\<open>NewElasticsearch\<close>: the controller, and the handlers it adds to each informer, in the
  order of the \<^verbatim>\<open>AddEventHandler\<close> calls. The event recorder and the construction of the
  convergence strategy have no part in what follows and are left out.
\<close>

definition NewElasticsearch ::
  "env \<Rightarrow> ElasticsearchController \<times> (informer \<times> ResourceEventHandlerFuncs) list" where
  "NewElasticsearch e =
     (\<lparr>esListerSynced = ESInformer,
       deployListerSynced = DeployInformer,
       statefulSetListerSynced = StatefulSetInformer,
       serviceAccountListerSynced = ServiceAccountInformer,
       serviceListerSynced = ServiceInformer\<rparr>,
      [(ESInformer,
        \<lparr>AddFunc = enqueueElasticsearchCluster e,
         UpdateFunc = (\<lambda>old cur.
           if DeepEqual e old cur then [] else enqueueElasticsearchCluster e cur),
         DeleteFunc = enqueueElasticsearchClusterDelete e\<rparr>),
       (DeployInformer,
        \<lparr>AddFunc = handleDeploy e,
         UpdateFunc = (\<lambda>old cur. if DeepEqual e old cur then [] else handleDeploy e cur),
         DeleteFunc = (\<lambda>obj. handleDeploy e obj)\<rparr>),
       (StatefulSetInformer,
        \<lparr>AddFunc = handleStatefulSet e,
         UpdateFunc = (\<lambda>old new. if DeepEqual e old new then [] else handleStatefulSet e new),
         DeleteFunc = handleStatefulSet e\<rparr>),
       (ServiceAccountInformer,
        \<lparr>AddFunc = handleServiceAccount e,
         UpdateFunc = (\<lambda>old new.
           if DeepEqual e old new then [] else handleServiceAccount e new),
         DeleteFunc = handleServiceAccount e\<rparr>),
       (ServiceInformer,
        \<lparr>AddFunc = handleService e,
         UpdateFunc = (\<lambda>old new. if DeepEqual e old new then [] else handleService e new),
         DeleteFunc = handleService e\<rparr>)])"


subsection \<open>Start-up\<close>

text \<open>
  \<^verbatim>\<open>Run\<close> up to its return: the start log, the wait on the caches, the error report
  when the wait fails, one \<^verbatim>\<open>go wait.Until(e.worker, ...)\<close> per worker, the receive on
  the stop channel, the shutdown log and the deferred \<^verbatim>\<open>ShutDown\<close> of the queue.
\<close>

definition Run :: "ElasticsearchController \<Rightarrow> env \<Rightarrow> int \<Rightarrow> call list" where
  "Run c e workers =
     (let cacheSyncs = [deployListerSynced c, esListerSynced c, statefulSetListerSynced c]
      in [LogInfof ''Starting Elasticsearch controller'', CallWaitForCacheSync cacheSyncs] @
         (if \<not> WaitForCacheSync e cacheSyncs
          then [HandleError ''timed out waiting for caches to sync'']
          else []) @
         replicate (nat workers) GoWaitUntilWorker @
         [ReceiveStop, LogInfof ''Shutting down Elasticsearch controller'', QueueShutDown])"

subsection \<open>Reading a list of calls\<close>

fun adds :: "call list \<Rightarrow> object list" where
  "adds [] = []"
| "adds (QueueAdd key # cs) = key # adds cs"
| "adds (_ # cs) = adds cs"

fun rateLimitedAdds :: "call list \<Rightarrow> object list" where
  "rateLimitedAdds [] = []"
| "rateLimitedAdds (QueueAddRateLimited key # cs) = key # rateLimitedAdds cs"
| "rateLimitedAdds (_ # cs) = rateLimitedAdds cs"

fun forgets :: "call list \<Rightarrow> object list" where
  "forgets [] = []"
| "forgets (QueueForget key # cs) = key # forgets cs"
| "forgets (_ # cs) = forgets cs"

fun strategySyncs :: "call list \<Rightarrow> ElasticsearchCluster list" where
  "strategySyncs [] = []"
| "strategySyncs (StrategySync es # cs) = es # strategySyncs cs"
| "strategySyncs (_ # cs) = strategySyncs cs"

text \<open>The typed downcast each subordinate handler starts with.\<close>

definition downcast :: "informer \<Rightarrow> object \<Rightarrow> Subordinate option" where
  "downcast i obj =
     (case (i, obj) of
        (DeployInformer, DeploymentObj s) \<Rightarrow> Some s
      | (StatefulSetInformer, StatefulSetObj s) \<Rightarrow> Some s
      | (ServiceAccountInformer, ServiceAccountObj s) \<Rightarrow> Some s
      | (ServiceInformer, ServiceObj s) \<Rightarrow> Some s
      | _ \<Rightarrow> None)"


subsection \<open>Example inputs\<close>

text \<open>
  The cluster \<open>ns/A\<close> of the spec's scenario, a cluster resource the validator
  rejects, a deployment owned by \<open>A\<close>, and an environment whose cache holds \<open>ns/A\<close>
  only: a lookup of the name \<open>flaky\<close> fails with a status error other than not-found,
  every other lookup reports not-found. Its strategy succeeds on a live cluster and
  fails on one that carries a deletion timestamp; its \<open>KeyFunc\<close> gives the
  namespace/name key of a cluster resource; its ownership marker is the first owner
  reference. Its \<open>DeepEqual\<close> compares the model's values, which is what
  \<^verbatim>\<open>reflect.DeepEqual\<close> answers on the objects used below: an object and itself, and
  objects that differ in a field the model keeps. Its ServiceAccount and Service
  informers never report synced.
\<close>

definition example_meta :: ObjectMeta where
  "example_meta =
     \<lparr>Name = ''A'', Namespace = ''ns'', DeletionTimestamp = None, OwnerReferences = []\<rparr>"

definition example_cluster :: ElasticsearchCluster where
  "example_cluster =
     \<lparr>Meta = example_meta,
      Spec = \<lparr>Version = ''7.1'',
              NodePools =
                [\<lparr>Roles = [''data''],
                  State = Some \<lparr>Stateful = True, Persistence = \<lparr>Enabled = False\<rparr>\<rparr>\<rparr>]\<rparr>\<rparr>"

definition example_invalid_cluster :: ElasticsearchCluster where
  "example_invalid_cluster =
     \<lparr>Meta = example_meta,
      Spec = \<lparr>Version = '''',
              NodePools =
                [\<lparr>Roles = [''data'', ''worker'', ''bogus''],
                  State = Some \<lparr>Stateful = False, Persistence = \<lparr>Enabled = True\<rparr>\<rparr>\<rparr>]\<rparr>\<rparr>"

definition example_deployment :: Subordinate where
  "example_deployment =
     \<lparr>SubMeta =
        \<lparr>Name = ''A-data'', Namespace = ''ns'', DeletionTimestamp = None,
         OwnerReferences = [\<lparr>OwnerKind = ''ElasticsearchCluster'', OwnerName = ''A''\<rparr>]\<rparr>,
      Body = ''replicas: 3''\<rparr>"

definition example_env :: env where
  "example_env =
     \<lparr>esLister = (\<lambda>namespace name.
        if namespace = ''ns'' \<and> name = ''A'' then Inr example_cluster
        else if name = ''flaky'' then Inl (StatusError (StatusReasonOther ''timeout''))
        else Inl (StatusError StatusReasonNotFound)),
      SyncElasticsearchCluster = (\<lambda>es.
        if DeletionTimestamp (Meta es) = None then None
        else Some (Errorf ''teardown failed'')),
      KeyFunc = (\<lambda>obj.
        case obj of
          ClusterObj c \<Rightarrow> Inr (Namespace (Meta c) @ ''/'' @ Name (Meta c))
        | _ \<Rightarrow> Inl (Errorf ''object has no meta'')),
      managedOwnerRef = (\<lambda>meta.
        case OwnerReferences meta of [] \<Rightarrow> None | ownerRef # _ \<Rightarrow> Some ownerRef),
      DeepEqual = (\<lambda>old cur. old = cur),
      Now = 42,
      HasSynced = (\<lambda>i. i = ESInformer \<or> i = DeployInformer \<or> i = StatefulSetInformer)\<rparr>"

text \<open>
  A store with one cluster resource at address 1. Its two node-pool pointers are the
  same address 2; the pool there has an unknown role and points to a non-stateful
  configuration with persistence enabled at address 3.
\<close>

definition example_store :: store where
  "example_store =
     \<lparr>clusters = (\<lambda>a. if a = 1
        then Some \<lparr>ClusterMeta = example_meta, ClusterVersion = ''7.1'',
                   ClusterNodePools = [Some 2, Some 2]\<rparr>
        else None),
      nodePools = (\<lambda>a. if a = 2
        then Some \<lparr>PoolRoles = [''data'', ''worker'', ''bogus''], PoolState = Some 3\<rparr>
        else None),
      stateConfigs = (\<lambda>a. if a = 3
        then Some \<lparr>Stateful = False, Persistence = \<lparr>Enabled = True\<rparr>\<rparr>
        else None)\<rparr>"

section \<open>Properties of the spec validator\<close>

lemma verifyRoles_None_iff:
  "verifyRoles roles = None \<longleftrightarrow>
     (\<forall>role \<in> set roles. role \<in> {''data'', ''client'', ''master''})"
  by (induction roles) simp_all

lemma verifyNodePool_None_iff:
  "verifyNodePool np = None \<longleftrightarrow>
     (\<forall>role \<in> set (Roles np). role \<in> {''data'', ''client'', ''master''}) \<and>
     (\<forall>st. State np = Some st \<longrightarrow> Stateful st \<or> \<not> Enabled (Persistence st))"
proof (cases "verifyRoles (Roles np)")
  case None
  then show ?thesis
    using verifyRoles_None_iff [of "Roles np"]
    by (cases "State np") (simp_all add: verifyNodePool_def)
next
  case (Some err)
  then show ?thesis
    using verifyRoles_None_iff [of "Roles np"]
    by (simp add: verifyNodePool_def)
qed

lemma verifyNodePools_None_iff:
  "verifyNodePools nps = None \<longleftrightarrow> (\<forall>np \<in> set nps. verifyNodePool np = None)"
  by (induction nps) (simp_all split: option.splits)

lemma verifyElasticsearchCluster_None_iff:
  "verifyElasticsearchCluster c = None \<longleftrightarrow>
     Version (Spec c) \<noteq> '''' \<and> (\<forall>np \<in> set (NodePools (Spec c)). verifyNodePool np = None)"
  by (simp add: verifyElasticsearchCluster_def verifyNodePools_None_iff)

lemma verifyRoles_worker:
  "verifyRoles [''worker''] = Some (Errorf
         (''invalid role 'worker' specified. must be one of 'data', 'client' or 'master'' @
          [CHR 0x27]))"
  by simp

lemma verifyRoles_first:
  "verifyRoles roles = (case role_violations roles of [] \<Rightarrow> None | err # _ \<Rightarrow> Some err)"
  by (induction roles) (simp_all add: role_violations_def)

lemma verifyNodePool_first:
  "verifyNodePool np = (case pool_violations np of [] \<Rightarrow> None | err # _ \<Rightarrow> Some err)"
  by (simp add: verifyNodePool_def pool_violations_def verifyRoles_first
        split: option.splits list.splits)

lemma verifyNodePools_first:
  "verifyNodePools nps =
     (case concat (map pool_violations nps) of [] \<Rightarrow> None | err # _ \<Rightarrow> Some err)"
proof (induction nps)
  case Nil
  show ?case by simp
next
  case (Cons np nps)
  show ?case
  proof (cases "pool_violations np")
    case Nil
    with Cons.IH show ?thesis by (simp add: verifyNodePool_first)
  next
    case (Cons err errs)
    then show ?thesis by (simp add: verifyNodePool_first)
  qed
qed

text \<open>
  C2. The validator rejects a cluster resource exactly when its version is empty, or
  some node pool has a role other than data, client and master, or some node pool is
  non-stateful with persistence enabled. In particular: an empty version is rejected; a
  pool with the role "worker" is rejected with the error whose message names the role,
  \<^verbatim>\<open>invalid role 'worker' specified. must be one of 'data', 'client' or 'master'\<close>; a pool
  with stateful false and persistence true is rejected; pools with stateful false and
  persistence false, or stateful true and persistence true, are accepted (given a
  version and known roles).
\<close>

theorem validator_rejects_iff:
  "(verifyElasticsearchCluster c \<noteq> None \<longleftrightarrow>
      Version (Spec c) = '''' \<or>
      (\<exists>np \<in> set (NodePools (Spec c)).
         (\<exists>role \<in> set (Roles np). role \<notin> {''data'', ''client'', ''master''}) \<or>
         (\<exists>st. State np = Some st \<and> \<not> Stateful st \<and> Enabled (Persistence st)))) \<and>
   verifyElasticsearchCluster \<lparr>Meta = m, Spec = \<lparr>Version = '''', NodePools = nps\<rparr>\<rparr> \<noteq> None \<and>
   (v \<noteq> '''' \<longrightarrow>
      verifyElasticsearchCluster
        \<lparr>Meta = m, Spec = \<lparr>Version = v, NodePools = [\<lparr>Roles = [''worker''], State = s\<rparr>]\<rparr>\<rparr>
      = Some (Errorf
         (''invalid role 'worker' specified. must be one of 'data', 'client' or 'master'' @
          [CHR 0x27]))) \<and>
   verifyElasticsearchCluster
     \<lparr>Meta = m, Spec = \<lparr>Version = v, NodePools =
        [\<lparr>Roles = roles,
          State = Some \<lparr>Stateful = False, Persistence = \<lparr>Enabled = True\<rparr>\<rparr>\<rparr>]\<rparr>\<rparr> \<noteq> None \<and>
   (v \<noteq> '''' \<and> (\<forall>role \<in> set roles. role \<in> {''data'', ''client'', ''master''}) \<longrightarrow>
      verifyElasticsearchCluster
        \<lparr>Meta = m, Spec = \<lparr>Version = v, NodePools =
           [\<lparr>Roles = roles,
             State = Some \<lparr>Stateful = False, Persistence = \<lparr>Enabled = False\<rparr>\<rparr>\<rparr>]\<rparr>\<rparr> = None \<and>
      verifyElasticsearchCluster
        \<lparr>Meta = m, Spec = \<lparr>Version = v, NodePools =
           [\<lparr>Roles = roles,
             State = Some \<lparr>Stateful = True, Persistence = \<lparr>Enabled = True\<rparr>\<rparr>\<rparr>]\<rparr>\<rparr> = None)"
proof -
  have general: "verifyElasticsearchCluster c \<noteq> None \<longleftrightarrow>
      Version (Spec c) = '''' \<or>
      (\<exists>np \<in> set (NodePools (Spec c)).
         (\<exists>role \<in> set (Roles np). role \<notin> {''data'', ''client'', ''master''}) \<or>
         (\<exists>st. State np = Some st \<and> \<not> Stateful st \<and> Enabled (Persistence st)))"
    unfolding verifyElasticsearchCluster_None_iff verifyNodePool_None_iff by blast
  have empty_version:
    "verifyElasticsearchCluster \<lparr>Meta = m, Spec = \<lparr>Version = '''', NodePools = nps\<rparr>\<rparr> \<noteq> None"
    by (simp add: verifyElasticsearchCluster_def)
  have worker: "v \<noteq> '''' \<longrightarrow>
      verifyElasticsearchCluster
        \<lparr>Meta = m, Spec = \<lparr>Version = v, NodePools = [\<lparr>Roles = [''worker''], State = s\<rparr>]\<rparr>\<rparr>
      = Some (Errorf
         (''invalid role 'worker' specified. must be one of 'data', 'client' or 'master'' @
          [CHR 0x27]))"
    by (simp add: verifyElasticsearchCluster_def verifyNodePool_def verifyRoles_worker
          del: verifyRoles.simps)
  have persistent: "verifyElasticsearchCluster
     \<lparr>Meta = m, Spec = \<lparr>Version = v, NodePools =
        [\<lparr>Roles = roles,
          State = Some \<lparr>Stateful = False, Persistence = \<lparr>Enabled = True\<rparr>\<rparr>\<rparr>]\<rparr>\<rparr> \<noteq> None"
    by (simp add: verifyElasticsearchCluster_None_iff verifyNodePool_None_iff)
  have accepted: "v \<noteq> '''' \<and> (\<forall>role \<in> set roles. role \<in> {''data'', ''client'', ''master''}) \<longrightarrow>
      verifyElasticsearchCluster
        \<lparr>Meta = m, Spec = \<lparr>Version = v, NodePools =
           [\<lparr>Roles = roles,
             State = Some \<lparr>Stateful = False, Persistence = \<lparr>Enabled = False\<rparr>\<rparr>\<rparr>]\<rparr>\<rparr> = None \<and>
      verifyElasticsearchCluster
        \<lparr>Meta = m, Spec = \<lparr>Version = v, NodePools =
           [\<lparr>Roles = roles,
             State = Some \<lparr>Stateful = True, Persistence = \<lparr>Enabled = True\<rparr>\<rparr>\<rparr>]\<rparr>\<rparr> = None"
    by (simp add: verifyElasticsearchCluster_None_iff verifyNodePool_None_iff)
  from general empty_version worker persistent accepted show ?thesis
    by (intro conjI)
qed

theorem validator_rejects_iff_witness:
  "verifyElasticsearchCluster example_invalid_cluster \<noteq> None \<and>
   verifyElasticsearchCluster
     \<lparr>Meta = example_meta,
      Spec = \<lparr>Version = ''7.1'', NodePools = [\<lparr>Roles = [''worker''], State = None\<rparr>]\<rparr>\<rparr>
     = Some (Errorf
         (''invalid role 'worker' specified. must be one of 'data', 'client' or 'master'' @
          [CHR 0x27])) \<and>
   verifyElasticsearchCluster
     \<lparr>Meta = example_meta,
      Spec = \<lparr>Version = ''7.1'', NodePools =
        [\<lparr>Roles = [''data''],
          State = Some \<lparr>Stateful = False, Persistence = \<lparr>Enabled = True\<rparr>\<rparr>\<rparr>]\<rparr>\<rparr> \<noteq> None \<and>
   verifyElasticsearchCluster
     \<lparr>Meta = example_meta,
      Spec = \<lparr>Version = ''7.1'', NodePools =
        [\<lparr>Roles = [''data''],
          State = Some \<lparr>Stateful = False, Persistence = \<lparr>Enabled = False\<rparr>\<rparr>\<rparr>]\<rparr>\<rparr> = None \<and>
   verifyElasticsearchCluster
     \<lparr>Meta = example_meta,
      Spec = \<lparr>Version = ''7.1'', NodePools =
        [\<lparr>Roles = [''data''],
          State = Some \<lparr>Stateful = True, Persistence = \<lparr>Enabled = True\<rparr>\<rparr>\<rparr>]\<rparr>\<rparr> = None"
  using validator_rejects_iff [where c = example_invalid_cluster and m = example_meta
      and v = "''7.1''" and roles = "[''data'']" and s = None]
  by (simp add: example_invalid_cluster_def)

lemma verifyRoles_append:
  "\<forall>r \<in> set known. r \<in> {''data'', ''client'', ''master''} \<Longrightarrow>
   verifyRoles (known @ roles) = verifyRoles roles"
  by (induction known) simp_all

lemma verifyNodePools_append:
  "\<forall>p \<in> set accepted. verifyNodePool p = None \<Longrightarrow>
   verifyNodePools (accepted @ nps) = verifyNodePools nps"
  by (induction accepted) simp_all

lemma verifyNodePool_ptr_store: "snd (verifyNodePool_ptr h np) = h"
  by (simp add: verifyNodePool_ptr_def split: option.splits)

lemma verifyNodePools_ptr_store: "snd (verifyNodePools_ptr h nps) = h"
proof (induction nps)
  case Nil
  show ?case by simp
next
  case (Cons np nps)
  obtain r where step: "verifyNodePool_ptr h np = (r, h)"
    using verifyNodePool_ptr_store [of h np] by (cases "verifyNodePool_ptr h np") simp
  show ?case
  proof (cases r)
    case (Returned verdict)
    with step Cons.IH show ?thesis by (cases verdict) simp_all
  next
    case NilPointerPanic
    with step show ?thesis by simp
  qed
qed

lemma verifyNodePool_ptr_load:
  "load_pool h np = Some pool \<Longrightarrow>
   verifyNodePool_ptr h np = (Returned (verifyNodePool pool), h)"
  by (auto simp: load_pool_def verifyNodePool_ptr_def verifyNodePool_def
        split: option.splits)

lemma verifyNodePools_ptr_load:
  "load_pools h nps = Some pools \<Longrightarrow>
   verifyNodePools_ptr h nps = (Returned (verifyNodePools pools), h)"
proof (induction nps arbitrary: pools)
  case Nil
  then show ?case by simp
next
  case (Cons np nps)
  from Cons.prems obtain pool rest where
    pool: "load_pool h np = Some pool" and rest: "load_pools h nps = Some rest"
    and pools: "pools = pool # rest"
    by (auto split: option.splits)
  show ?case
    using verifyNodePool_ptr_load [OF pool] Cons.IH [OF rest] pools
    by (cases "verifyNodePool pool") simp_all
qed

text \<open>
  C8. The validator returns exactly the first violation in its check order: the empty
  version before anything else, then the node pools in list order, and inside a pool a
  role violation (with the message that names the role) before the stateful/persistence
  violation. The result is one violation, the head of the list of all of them, never a
  combination. The validator is pure: run on a store through the pointer it is given,
  it leaves the store as it found it, and what it returns is the verdict on the cluster
  resource the pointer stands for.
\<close>

theorem validator_returns_first_violation:
  "verifyElasticsearchCluster c =
     (case violations_in_check_order c of [] \<Rightarrow> None | err # _ \<Rightarrow> Some err) \<and>
   (Version (Spec c) = '''' \<longrightarrow>
      verifyElasticsearchCluster c = Some (Errorf ''cluster version number must be specified'')) \<and>
   (Version (Spec c) \<noteq> '''' \<and> NodePools (Spec c) = accepted @ np # rest \<and>
    (\<forall>p \<in> set accepted. verifyNodePool p = None) \<and> verifyNodePool np = Some err \<longrightarrow>
      verifyElasticsearchCluster c = Some err) \<and>
   (Roles np = known @ role # others \<and>
    (\<forall>r \<in> set known. r \<in> {''data'', ''client'', ''master''}) \<and>
    role \<notin> {''data'', ''client'', ''master''} \<longrightarrow>
      verifyNodePool np =
        Some (Errorf (''invalid role '' @ [CHR 0x27] @ role @ [CHR 0x27] @
          '' specified. must be one of 'data', 'client' or 'master'' @ [CHR 0x27]))) \<and>
   snd (verifyElasticsearchCluster_ptr h ptr) = h \<and>
   (load_cluster h ptr = Some c \<longrightarrow>
      verifyElasticsearchCluster_ptr h ptr = (Returned (verifyElasticsearchCluster c), h))"
proof -
  have head: "verifyElasticsearchCluster c =
     (case violations_in_check_order c of [] \<Rightarrow> None | err # _ \<Rightarrow> Some err)"
    by (simp add: verifyElasticsearchCluster_def violations_in_check_order_def
          verifyNodePools_first)
  have version: "Version (Spec c) = '''' \<longrightarrow>
      verifyElasticsearchCluster c = Some (Errorf ''cluster version number must be specified'')"
    by (simp add: verifyElasticsearchCluster_def)
  have pools: "Version (Spec c) \<noteq> '''' \<and> NodePools (Spec c) = accepted @ np # rest \<and>
    (\<forall>p \<in> set accepted. verifyNodePool p = None) \<and> verifyNodePool np = Some err \<longrightarrow>
      verifyElasticsearchCluster c = Some err"
    by (simp add: verifyElasticsearchCluster_def verifyNodePools_append)
  have roles: "Roles np = known @ role # others \<and>
    (\<forall>r \<in> set known. r \<in> {''data'', ''client'', ''master''}) \<and>
    role \<notin> {''data'', ''client'', ''master''} \<longrightarrow>
      verifyNodePool np =
        Some (Errorf (''invalid role '' @ [CHR 0x27] @ role @ [CHR 0x27] @
          '' specified. must be one of 'data', 'client' or 'master'' @ [CHR 0x27]))"
    by (simp add: verifyNodePool_def verifyRoles_append)
  have unchanged: "snd (verifyElasticsearchCluster_ptr h ptr) = h"
    by (simp add: verifyElasticsearchCluster_ptr_def verifyNodePools_ptr_store
          split: option.splits)
  have verdict: "load_cluster h ptr = Some c \<longrightarrow>
      verifyElasticsearchCluster_ptr h ptr = (Returned (verifyElasticsearchCluster c), h)"
    by (auto simp: load_cluster_def verifyElasticsearchCluster_ptr_def
          verifyElasticsearchCluster_def verifyNodePools_ptr_load split: option.splits)
  from head version pools roles unchanged verdict show ?thesis
    by (intro conjI)
qed

theorem validator_returns_first_violation_witness:
  "verifyElasticsearchCluster example_invalid_cluster =
     Some (Errorf ''cluster version number must be specified'') \<and>
   verifyElasticsearchCluster
     (example_invalid_cluster
        \<lparr>Spec := (Spec example_invalid_cluster)\<lparr>Version := ''7.1''\<rparr>\<rparr>) =
     Some (Errorf
       (''invalid role 'worker' specified. must be one of 'data', 'client' or 'master'' @
        [CHR 0x27])) \<and>
   violations_in_check_order example_invalid_cluster =
     [Errorf ''cluster version number must be specified'',
      Errorf
       (''invalid role 'worker' specified. must be one of 'data', 'client' or 'master'' @
        [CHR 0x27]),
      Errorf
       (''invalid role 'bogus' specified. must be one of 'data', 'client' or 'master'' @
        [CHR 0x27]),
      Errorf ''a non-stateful node pool cannot have persistence enabled''] \<and>
   verifyElasticsearchCluster_ptr example_store (Some 1) =
     (Returned (Some (Errorf
        (''invalid role 'worker' specified. must be one of 'data', 'client' or 'master'' @
         [CHR 0x27]))),
      example_store) \<and>
   verifyElasticsearchCluster_ptr example_store None = (NilPointerPanic, example_store)"
proof -
  let ?worker = "Errorf
    (''invalid role 'worker' specified. must be one of 'data', 'client' or 'master'' @
     [CHR 0x27])"
  let ?np = "\<lparr>Roles = [''data'', ''worker'', ''bogus''],
               State = Some \<lparr>Stateful = False, Persistence = \<lparr>Enabled = True\<rparr>\<rparr>\<rparr>"
  let ?c = "example_invalid_cluster\<lparr>Spec := (Spec example_invalid_cluster)\<lparr>Version := ''7.1''\<rparr>\<rparr>"
  let ?stored = "\<lparr>Meta = example_meta, Spec = \<lparr>Version = ''7.1'', NodePools = [?np, ?np]\<rparr>\<rparr>"
  have first: "verifyElasticsearchCluster example_invalid_cluster =
     Some (Errorf ''cluster version number must be specified'')"
    using validator_returns_first_violation
      [where c = example_invalid_cluster, THEN conjunct2, THEN conjunct1]
    by (simp add: example_invalid_cluster_def)
  have pool: "verifyNodePool ?np = Some ?worker"
    using validator_returns_first_violation
      [where np = ?np and known = "[''data'']" and role = "''worker''" and others = "[''bogus'']",
        THEN conjunct2, THEN conjunct2, THEN conjunct2, THEN conjunct1]
    by simp
  have second: "verifyElasticsearchCluster ?c = Some ?worker"
    using pool validator_returns_first_violation
      [where c = ?c and accepted = "[]" and np = ?np and rest = "[]" and err = ?worker,
         THEN conjunct2, THEN conjunct2, THEN conjunct1]
    by (simp add: example_invalid_cluster_def)
  have all: "violations_in_check_order example_invalid_cluster =
     [Errorf ''cluster version number must be specified'',
      ?worker,
      Errorf
       (''invalid role 'bogus' specified. must be one of 'data', 'client' or 'master'' @
        [CHR 0x27]),
      Errorf ''a non-stateful node pool cannot have persistence enabled'']"
    by (simp add: violations_in_check_order_def pool_violations_def role_violations_def
          example_invalid_cluster_def)
  have loaded: "load_cluster example_store (Some 1) = Some ?stored"
    by (simp add: load_cluster_def load_pool_def deref_def example_store_def)
  have stored: "verifyElasticsearchCluster ?stored = Some ?worker"
    using pool validator_returns_first_violation
      [where c = ?stored and accepted = "[]" and np = ?np and rest = "[?np]" and err = ?worker,
         THEN conjunct2, THEN conjunct2, THEN conjunct1]
    by simp
  have on_store: "verifyElasticsearchCluster_ptr example_store (Some 1) =
      (Returned (Some ?worker), example_store)"
    using loaded stored validator_returns_first_violation
      [where c = ?stored and h = example_store and ptr = "Some 1",
         THEN conjunct2, THEN conjunct2, THEN conjunct2, THEN conjunct2, THEN conjunct2]
    by simp
  have "fst (verifyElasticsearchCluster_ptr example_store None) = NilPointerPanic"
    by (simp add: verifyElasticsearchCluster_ptr_def deref_def)
  with validator_returns_first_violation
      [where h = example_store and ptr = None,
         THEN conjunct2, THEN conjunct2, THEN conjunct2, THEN conjunct2, THEN conjunct1]
  have nil: "verifyElasticsearchCluster_ptr example_store None =
      (NilPointerPanic, example_store)"
    by (simp add: prod_eq_iff)
  from first second all on_store nil show ?thesis by (intro conjI)
qed

text \<open>
  C10. For a node pool whose \<^verbatim>\<open>State\<close> is nil the stateful/persistence check is
  skipped: the verdict is that of the role loop alone, so the pool is accepted exactly
  when all its roles are among data, client and master.
\<close>

theorem nil_state_skips_persistence_check:
  "State np = None \<Longrightarrow>
   verifyNodePool np = verifyRoles (Roles np) \<and>
   (verifyNodePool np = None \<longleftrightarrow>
      (\<forall>role \<in> set (Roles np). role \<in> {''data'', ''client'', ''master''}))"
  by (simp add: verifyNodePool_None_iff) (simp add: verifyNodePool_def split: option.splits)

theorem nil_state_skips_persistence_check_witness:
  "State \<lparr>Roles = [''data'', ''master''], State = None\<rparr> = None \<and>
   verifyNodePool \<lparr>Roles = [''data'', ''master''], State = None\<rparr> = None \<and>
   verifyNodePool \<lparr>Roles = [''data'', ''worker''], State = None\<rparr> \<noteq> None"
  using nil_state_skips_persistence_check [of "\<lparr>Roles = [''data'', ''master''], State = None\<rparr>"]
    nil_state_skips_persistence_check [of "\<lparr>Roles = [''data'', ''worker''], State = None\<rparr>"]
  by simp


section \<open>Properties of the sync dispatcher\<close>

lemma forgets_append: "forgets (xs @ ys) = forgets xs @ forgets ys"
  by (induction xs rule: forgets.induct) simp_all

lemma rateLimitedAdds_append:
  "rateLimitedAdds (xs @ ys) = rateLimitedAdds xs @ rateLimitedAdds ys"
  by (induction xs rule: rateLimitedAdds.induct) simp_all

lemma strategySyncs_append: "strategySyncs (xs @ ys) = strategySyncs xs @ strategySyncs ys"
  by (induction xs rule: strategySyncs.induct) simp_all




lemma sync_found:
  "SplitMetaNamespaceKey k = Inr (namespace, name) \<Longrightarrow>
   esLister e namespace name = Inr es \<Longrightarrow>
   sync e k =
     (SyncElasticsearchCluster e es,
      [StrategySync es, LogInfof ''Finished syncing elasticsearchcluster %q (%v)''])"
  by (simp add: sync_def)

lemma processNextWorkItem_string:
  "processNextWorkItem e (StringObj k, False) =
     (True,
      (case sync e k of
         (Some err, calls) \<Rightarrow>
           calls @
           [LogInfof ''Error syncing ElasticsearchCluster %v, requeuing: %v'',
            QueueAddRateLimited (StringObj k)]
       | (None, calls) \<Rightarrow> calls @ [QueueForget (StringObj k)]) @
      [QueueDone (StringObj k)])"
  by (simp add: processNextWorkItem_def)



lemma processNextWorkItem_snapshot:
  "processNextWorkItem e (ClusterObj es, False) =
     (True,
      StrategySync (es\<lparr>Meta := (Meta es)\<lparr>DeletionTimestamp := Some (Now e)\<rparr>\<rparr>) #
      (case SyncElasticsearchCluster e
              (es\<lparr>Meta := (Meta es)\<lparr>DeletionTimestamp := Some (Now e)\<rparr>\<rparr>) of
         Some err \<Rightarrow> [LogInfof ''Error syncing ElasticsearchCluster %v, requeuing: %v'']
       | None \<Rightarrow> []) @
      [QueueForget (ClusterObj es), QueueDone (ClusterObj es)])"
  by (simp add: processNextWorkItem_def Let_def)

text \<open>
  C3. A captured cluster snapshot taken from the queue: the dispatcher puts a deletion
  timestamp on the snapshot, calls the convergence strategy exactly once, with the
  stamped snapshot, and forgets the key whatever the strategy returns; it never calls
  \<^verbatim>\<open>AddRateLimited\<close>.
\<close>

theorem snapshot_key_dispatch:
  "fst (processNextWorkItem e (ClusterObj es, False)) = True \<and>
   strategySyncs (snd (processNextWorkItem e (ClusterObj es, False))) =
     [es\<lparr>Meta := (Meta es)\<lparr>DeletionTimestamp := Some (Now e)\<rparr>\<rparr>] \<and>
   DeletionTimestamp
     (Meta (hd (strategySyncs (snd (processNextWorkItem e (ClusterObj es, False)))))) \<noteq> None \<and>
   forgets (snd (processNextWorkItem e (ClusterObj es, False))) = [ClusterObj es] \<and>
   rateLimitedAdds (snd (processNextWorkItem e (ClusterObj es, False))) = []"
  by (cases "SyncElasticsearchCluster e
               (es\<lparr>Meta := (Meta es)\<lparr>DeletionTimestamp := Some (Now e)\<rparr>\<rparr>)")
     (simp_all add: processNextWorkItem_snapshot)

theorem snapshot_key_dispatch_witness:
  "SyncElasticsearchCluster example_env
     (example_cluster\<lparr>Meta := example_meta\<lparr>DeletionTimestamp := Some 42\<rparr>\<rparr>) =
     Some (Errorf ''teardown failed'') \<and>
   strategySyncs (snd (processNextWorkItem example_env (ClusterObj example_cluster, False))) =
     [example_cluster\<lparr>Meta := example_meta\<lparr>DeletionTimestamp := Some 42\<rparr>\<rparr>] \<and>
   forgets (snd (processNextWorkItem example_env (ClusterObj example_cluster, False))) =
     [ClusterObj example_cluster] \<and>
   rateLimitedAdds (snd (processNextWorkItem example_env (ClusterObj example_cluster, False))) =
     []"
  using snapshot_key_dispatch [of example_env example_cluster]
  by (simp add: example_env_def example_cluster_def)

text \<open>
  C7. The dispatcher does not consult the validator: whenever \<^verbatim>\<open>sync\<close> fetches a
  cluster resource, it calls the convergence strategy with it and returns the strategy's
  result, whatever \<^verbatim>\<open>verifyElasticsearchCluster\<close> says about that resource.
\<close>

theorem sync_invokes_strategy_unvalidated:
  "SplitMetaNamespaceKey k = Inr (namespace, name) \<Longrightarrow>
   esLister e namespace name = Inr es \<Longrightarrow>
   sync e k =
     (SyncElasticsearchCluster e es,
      [StrategySync es, LogInfof ''Finished syncing elasticsearchcluster %q (%v)'']) \<and>
   strategySyncs (snd (processNextWorkItem e (StringObj k, False))) = [es]"
  by (cases "SyncElasticsearchCluster e es")
     (simp_all add: processNextWorkItem_string sync_found)

theorem sync_invokes_strategy_unvalidated_witness:
  "verifyElasticsearchCluster example_invalid_cluster \<noteq> None \<and>
   strategySyncs
     (snd (processNextWorkItem
        (example_env\<lparr>esLister := \<lambda>namespace name. Inr example_invalid_cluster\<rparr>)
        (StringObj ''ns/A'', False))) = [example_invalid_cluster]"
proof -
  have A: "SplitMetaNamespaceKey ''ns/A'' = Inr (''ns'', ''A'')"
    by (simp add: SplitMetaNamespaceKey_def)
  have rejected: "verifyElasticsearchCluster example_invalid_cluster \<noteq> None"
    by (simp add: verifyElasticsearchCluster_def example_invalid_cluster_def)
  have invoked: "strategySyncs
     (snd (processNextWorkItem
        (example_env\<lparr>esLister := \<lambda>namespace name. Inr example_invalid_cluster\<rparr>)
        (StringObj ''ns/A'', False))) = [example_invalid_cluster]"
    using sync_invokes_strategy_unvalidated
      [OF A, of "example_env\<lparr>esLister := \<lambda>namespace name. Inr example_invalid_cluster\<rparr>"
         example_invalid_cluster]
    by simp
  from rejected invoked show ?thesis by (intro conjI)
qed

text \<open>
  C9. A key taken from the queue whose dynamic type is neither string nor
  \<^verbatim>\<open>*v1.ElasticsearchCluster\<close>: \<^verbatim>\<open>processNextWorkItem\<close> calls \<^verbatim>\<open>Done\<close> and returns
  true, and makes no other call: no sync, no strategy, no \<^verbatim>\<open>Forget\<close>, no
  \<^verbatim>\<open>AddRateLimited\<close>, no log line. A tombstone that the delete handler put on the queue
  as it came is such a key.
\<close>

theorem other_key_discarded:
  "((\<forall>k. key \<noteq> StringObj k) \<and> (\<forall>es. key \<noteq> ClusterObj es) \<longrightarrow>
      processNextWorkItem e (key, False) = (True, [QueueDone key])) \<and>
   enqueueElasticsearchClusterDelete e (TombstoneObj k obj) = [QueueAdd (TombstoneObj k obj)] \<and>
   processNextWorkItem e (TombstoneObj k obj, False) = (True, [QueueDone (TombstoneObj k obj)])"
  by (cases key) (simp_all add: processNextWorkItem_def enqueueElasticsearchClusterDelete_def)

theorem other_key_discarded_witness:
  "processNextWorkItem example_env (DeploymentObj example_deployment, False) =
     (True, [QueueDone (DeploymentObj example_deployment)]) \<and>
   adds (enqueueElasticsearchClusterDelete example_env
           (TombstoneObj ''ns/A'' (ClusterObj example_cluster))) =
     [TombstoneObj ''ns/A'' (ClusterObj example_cluster)] \<and>
   processNextWorkItem example_env (TombstoneObj ''ns/A'' (ClusterObj example_cluster), False) =
     (True, [QueueDone (TombstoneObj ''ns/A'' (ClusterObj example_cluster))])"
  using other_key_discarded
      [of "DeploymentObj example_deployment" example_env "''ns/A''" "ClusterObj example_cluster"]
  by simp

section \<open>Properties of the event handlers\<close>














lemma downcast_ES: "downcast ESInformer obj = None"
  by (simp add: downcast_def)






section \<open>Start-up\<close>

text \<open>When the three caches that \<^verbatim>\<open>Run\<close> waits for have synced, the workers are
  started without an error report, whatever the other two informers say. When the wait
  fails, the error is handed to \<^verbatim>\<open>utilruntime.HandleError\<close> and the \<^verbatim>\<open>go\<close> statements
  are executed all the same.\<close>

lemma Run_wait_succeeds:
  "HasSynced e DeployInformer \<Longrightarrow> HasSynced e ESInformer \<Longrightarrow>
   HasSynced e StatefulSetInformer \<Longrightarrow>
   Run (fst (NewElasticsearch e)) e workers =
     [LogInfof ''Starting Elasticsearch controller'',
      CallWaitForCacheSync [DeployInformer, ESInformer, StatefulSetInformer]] @
     replicate (nat workers) GoWaitUntilWorker @
     [ReceiveStop, LogInfof ''Shutting down Elasticsearch controller'', QueueShutDown]"
  by (simp add: Run_def NewElasticsearch_def WaitForCacheSync_def Let_def)

lemma Run_wait_fails:
  "\<not> (HasSynced e DeployInformer \<and> HasSynced e ESInformer \<and>
      HasSynced e StatefulSetInformer) \<Longrightarrow>
   Run (fst (NewElasticsearch e)) e workers =
     [LogInfof ''Starting Elasticsearch controller'',
      CallWaitForCacheSync [DeployInformer, ESInformer, StatefulSetInformer],
      HandleError ''timed out waiting for caches to sync''] @
     replicate (nat workers) GoWaitUntilWorker @
     [ReceiveStop, LogInfof ''Shutting down Elasticsearch controller'', QueueShutDown]"
  by (simp add: Run_def NewElasticsearch_def WaitForCacheSync_def Let_def)

text \<open>
  C4. \<^verbatim>\<open>Run\<close> hands three of the five \<^verbatim>\<open>HasSynced\<close> functions to
  \<^verbatim>\<open>WaitForCacheSync\<close>: those of the Deployment, ElasticsearchCluster and StatefulSet
  informers. In the example environment the ServiceAccount and Service informers never
  report synced; the wait succeeds all the same, no error is reported and both workers
  are started.
\<close>

theorem Run_starts_workers_without_service_caches:
  "\<not> HasSynced example_env (serviceAccountListerSynced (fst (NewElasticsearch example_env))) \<and>
   \<not> HasSynced example_env (serviceListerSynced (fst (NewElasticsearch example_env))) \<and>
   Run (fst (NewElasticsearch example_env)) example_env 2 =
     [LogInfof ''Starting Elasticsearch controller'',
      CallWaitForCacheSync [DeployInformer, ESInformer, StatefulSetInformer],
      GoWaitUntilWorker, GoWaitUntilWorker,
      ReceiveStop,
      LogInfof ''Shutting down Elasticsearch controller'',
      QueueShutDown]"
  by (simp add: Run_def NewElasticsearch_def WaitForCacheSync_def example_env_def Let_def
        numeral_2_eq_2)

end
